theory Spec2Isabelle
  imports Main
begin

section \<open>JavaScript values and the runtime the facade calls into\<close>

text \<open>
  The facade passes values of TypeScript type \<^verbatim>\<open>any\<close> around. Numbers are modelled
  as integers (no fractions, no NaN); JBigInt stands for a value that
  \<^verbatim>\<open>JSON.stringify\<close> refuses.
\<close>

datatype jsvalue =
    JUndefined
  | JNull
  | JBool bool
  | JNum int
  | JStr string
  | JBigInt int
  | JArr "jsvalue list"
  | JObj "(string \<times> jsvalue) list"

text \<open>What a call of \<^verbatim>\<open>JSON.stringify\<close> can do: throw, return undefined, or return text.\<close>

datatype stringify_result = Throws | ReturnsUndefined | Text string

text \<open>
  \<^verbatim>\<open>JSON.stringify\<close>, \<^verbatim>\<open>JSON.parse\<close> and the \<^verbatim>\<open>crypto\<close> module belong to
  the platform, not to the repository: they are parameters. \<open>JSON_parse\<close> gives
  \<open>None\<close> where \<^verbatim>\<open>JSON.parse\<close> throws. \<open>hash_fn\<close> maps an algorithm name to its digest
  function on bytes, \<open>encode\<close> an encoding name to its printer, \<open>utf8\<close> is the default
  encoding \<^verbatim>\<open>hash.update\<close> applies to a string.
\<close>

type_synonym bytes = "char list"

record runtime =
  JSON_stringify :: "jsvalue \<Rightarrow> stringify_result"
  JSON_parse :: "string \<Rightarrow> jsvalue option"
  utf8 :: "string \<Rightarrow> bytes"
  hash_fn :: "string \<Rightarrow> bytes \<Rightarrow> bytes"
  encode :: "string \<Rightarrow> bytes \<Rightarrow> string"

text \<open>
  Errors a caller can observe. \<open>Thrown v\<close> is a rejection of the caller's own
  executor with reason \<open>v\<close>; \<open>TypeError\<close> is the JavaScript runtime's;
  \<open>ConnectionError\<close> and \<open>ReplyError\<close> come from the store client;
  \<open>LockContention\<close> and \<open>LockOwnershipError\<close> from the lock library.
  \<open>SerializationError\<close> and \<open>DeserializationError\<close> are names of the specification's
  error taxonomy; the repository defines no error class, and no function below returns them.
\<close>

datatype error =
    ConnectionError
  | ReplyError string
  | TypeError
  | LockContention
  | LockOwnershipError
  | SerializationError
  | DeserializationError
  | Thrown jsvalue

section \<open>The store\<close>

text \<open>
  Modelled from the spec: the store client (the \<^verbatim>\<open>redis\<close> package) is an external
  collaborator. The spec names GET, SET with expiry, DEL, MGET, an atomic batch, and a
  lease primitive. An entry is a text with an optional deadline in milliseconds;
  \<open>now\<close> is the store's clock; \<open>online\<close> is false when the connection is down, and
  then every command fails with \<open>ConnectionError\<close>. \<open>non_text\<close> is what the client
  does with a command argument that is not a string (one version of the client prints
  it, a later one refuses it): \<open>None\<close> is a refusal.
\<close>

record store =
  online :: bool
  now :: nat
  non_text :: "jsvalue \<Rightarrow> string option"
  entries :: "string \<Rightarrow> (string \<times> nat option) option"
  leases :: "string \<Rightarrow> (nat \<times> nat) option"
  next_token :: nat

datatype expiry = Seconds int | Forever

definition live :: "store \<Rightarrow> string \<Rightarrow> string option" where
  "live st key =
     (case entries st key of
        None \<Rightarrow> None
      | Some (s, None) \<Rightarrow> Some s
      | Some (s, Some d) \<Rightarrow> if now st < d then Some s else None)"

definition arg_text :: "store \<Rightarrow> jsvalue \<Rightarrow> string option" where
  "arg_text st v = (case v of JStr s \<Rightarrow> Some s | _ \<Rightarrow> non_text st v)"

definition deadline :: "store \<Rightarrow> expiry \<Rightarrow> (error + nat option)" where
  "deadline st e =
     (case e of
        Forever \<Rightarrow> Inr None
      | Seconds n \<Rightarrow> if n \<le> 0 then Inl (ReplyError ''ERR invalid expire time in set'')
                else Inr (Some (now st + nat n * 1000)))"

definition getAsync :: "store \<Rightarrow> string \<Rightarrow> error + string option" where
  "getAsync st key = (if online st then Inr (live st key) else Inl ConnectionError)"

definition setAsync ::
  "store \<Rightarrow> string \<Rightarrow> jsvalue \<Rightarrow> expiry \<Rightarrow> (error + unit) \<times> store" where
  "setAsync st key v e =
     (if \<not> online st then (Inl ConnectionError, st)
      else case arg_text st v of
        None \<Rightarrow> (Inl TypeError, st)
      | Some s \<Rightarrow>
         (case deadline st e of
            Inl err \<Rightarrow> (Inl err, st)
          | Inr d \<Rightarrow> (Inr (), st\<lparr>entries := (entries st)(key := Some (s, d))\<rparr>)))"

fun del_keys :: "string list \<Rightarrow> store \<Rightarrow> nat \<times> store" where
  "del_keys [] st = (0, st)"
| "del_keys (k # ks) st =
     (let hit = (if live st k = None then 0 else 1);
          (n, st') = del_keys ks (st\<lparr>entries := (entries st)(k := None)\<rparr>)
      in (hit + n, st'))"

definition delAsync :: "store \<Rightarrow> string list \<Rightarrow> (error + nat) \<times> store" where
  "delAsync st keys =
     (if \<not> online st then (Inl ConnectionError, st)
      else if keys = [] then (Inl (ReplyError ''ERR wrong number of arguments''), st)
      else case del_keys keys st of (n, st') \<Rightarrow> (Inr n, st'))"


text \<open>
  The atomic batch: the queued SET commands run in order; a command the store rejects
  does not stop the others, and only a connection failure fails the batch.
\<close>

fun run_queue :: "(string \<times> jsvalue \<times> expiry) list \<Rightarrow> store \<Rightarrow> store" where
  "run_queue [] st = st"
| "run_queue ((k, v, e) # q) st = run_queue q (snd (setAsync st k v e))"

definition multi_exec ::
  "store \<Rightarrow> (string \<times> jsvalue \<times> expiry) list \<Rightarrow> (error + unit) \<times> store" where
  "multi_exec st q =
     (if \<not> online st then (Inl ConnectionError, st) else (Inr (), run_queue q st))"

section \<open>The facade\<close>

text \<open>
  \<^verbatim>\<open>FastCacheOpts\<close>: absent options are \<open>None\<close>. The facade keeps the prefix, the
  default TTL in seconds, and (in \<^verbatim>\<open>fast-cache.ts\<close>) the lock fields. The client it
  owns is the store, passed explicitly.
\<close>

record FastCacheOpts =
  opt_prefix :: "string option"
  opt_ttl :: "int option"

record lease =
  resource :: string
  token :: nat
  expiration :: nat

record FastCache =
  prefix :: string
  ttl :: int
  redlock :: bool
  redlockttl :: nat
  locker :: "lease option"

text \<open>JavaScript's \<^verbatim>\<open>a || b\<close> on an optional number and on an optional string.\<close>

definition or_number :: "int option \<Rightarrow> int \<Rightarrow> int" where
  "or_number a b = (case a of None \<Rightarrow> b | Some n \<Rightarrow> if n = 0 then b else n)"

definition or_string :: "string option \<Rightarrow> string \<Rightarrow> string" where
  "or_string a b = (case a of None \<Rightarrow> b | Some s \<Rightarrow> if s = [] then b else s)"

definition init :: "FastCacheOpts \<Rightarrow> FastCache" where
  "init opts =
     \<lparr> prefix = or_string (opt_prefix opts) [],
       ttl = or_number (opt_ttl opts) (60 * 5),
       redlock = False,
       redlockttl = 0,
       locker = None \<rparr>"

definition set_fc ::
  "FastCache \<Rightarrow> store \<Rightarrow> string \<Rightarrow> jsvalue \<Rightarrow> int option \<Rightarrow> (error + unit) \<times> store" where
  "set_fc this st key v ex = setAsync st key v (Seconds (or_number ex (ttl this)))"

definition get :: "FastCache \<Rightarrow> store \<Rightarrow> string \<Rightarrow> error + string option" where
  "get this st key = getAsync st key"

definition remove :: "FastCache \<Rightarrow> store \<Rightarrow> string \<Rightarrow> (error + nat) \<times> store" where
  "remove this st key = delAsync st [key]"

definition setAll ::
  "FastCache \<Rightarrow> store \<Rightarrow> (string \<times> jsvalue) list \<Rightarrow> (error + unit) \<times> store" where
  "setAll this st obj = multi_exec st (map (\<lambda>(key, v). (key, v, Seconds (ttl this))) obj)"



section \<open>serialize, deserialize, cacheKey\<close>

definition serialize :: "runtime \<Rightarrow> jsvalue \<Rightarrow> jsvalue" where
  "serialize rt obj =
     (case JSON_stringify rt obj of
        Throws \<Rightarrow> JNull
      | ReturnsUndefined \<Rightarrow> JUndefined
      | Text s \<Rightarrow> JStr s)"

definition deserialize :: "runtime \<Rightarrow> string \<Rightarrow> jsvalue" where
  "deserialize rt s = (case JSON_parse rt s of None \<Rightarrow> JNull | Some v \<Rightarrow> v)"

text \<open>
  The \<^verbatim>\<open>Hash\<close> object of the \<^verbatim>\<open>crypto\<close> module: \<^verbatim>\<open>update\<close> accepts a string
  (or a buffer, which the facade never passes) and throws a TypeError on anything else;
  \<^verbatim>\<open>digest\<close> prints the digest of what was fed.
\<close>

record hash =
  algorithm :: string
  fed :: bytes

definition createHash :: "string \<Rightarrow> hash" where
  "createHash name = \<lparr> algorithm = name, fed = [] \<rparr>"

definition update :: "runtime \<Rightarrow> hash \<Rightarrow> jsvalue \<Rightarrow> error + hash" where
  "update rt h v =
     (case v of
        JStr s \<Rightarrow> Inr (h\<lparr>fed := fed h @ utf8 rt s\<rparr>)
      | _ \<Rightarrow> Inl TypeError)"

definition digest :: "runtime \<Rightarrow> hash \<Rightarrow> string \<Rightarrow> string" where
  "digest rt h enc = encode rt enc (hash_fn rt (algorithm h) (fed h))"

definition cacheKey :: "runtime \<Rightarrow> jsvalue \<Rightarrow> error + string" where
  "cacheKey rt obj =
     (case update rt (createHash ''sha1'') (serialize rt obj) of
        Inl err \<Rightarrow> Inl err
      | Inr h \<Rightarrow> Inr (digest rt h ''base64''))"

section \<open>withCache\<close>

text \<open>
  The executor is a promise: what the coordinator can see of it is how it settles.
  \<open>awaited\<close> counts how often the coordinator subscribes to it. The callbacks handed
  to \<^verbatim>\<open>setImmediate\<close> are returned as tasks; they run in a later turn, on whatever
  the store is by then, and their outcome goes to the debug log only.
\<close>

datatype settled = Resolved jsvalue | Rejected error

datatype task = Persist string jsvalue | Cleanup string

datatype debug_line = SetOk | SetError error

record run =
  outcome :: settled
  awaited :: nat
  scheduled :: "task list"

fun truthy :: "string option \<Rightarrow> bool" where
  "truthy None = False"
| "truthy (Some s) = (s \<noteq> [])"

text \<open>\<^verbatim>\<open>JSON.parse\<close> reads its argument as a string; a null reply would read as \<^verbatim>\<open>null\<close>.\<close>

fun ToString :: "string option \<Rightarrow> string" where
  "ToString None = ''null''"
| "ToString (Some s) = s"

text \<open>\<^verbatim>\<open>executor.then(...).catch(...)\<close>: one subscription, one scheduled callback.\<close>

definition on_settle :: "string \<Rightarrow> settled \<Rightarrow> run" where
  "on_settle key executor =
     (case executor of
        Resolved result \<Rightarrow>
          \<lparr> outcome = Resolved result, awaited = 1, scheduled = [Persist key result] \<rparr>
      | Rejected err \<Rightarrow>
          \<lparr> outcome = Rejected err, awaited = 1, scheduled = [Cleanup key] \<rparr>)"

definition withCache ::
  "runtime \<Rightarrow> FastCache \<Rightarrow> store \<Rightarrow> string \<Rightarrow> settled \<Rightarrow> run" where
  "withCache rt this st key executor =
     (case get this st key of
        Inl err \<Rightarrow> \<lparr> outcome = Rejected err, awaited = 0, scheduled = [] \<rparr>
      | Inr cached \<Rightarrow>
          if truthy cached
          then \<lparr> outcome = Resolved (deserialize rt (ToString cached)),
                 awaited = 0, scheduled = [] \<rparr>
          else on_settle key executor)"

fun run_task :: "runtime \<Rightarrow> FastCache \<Rightarrow> task \<Rightarrow> store \<Rightarrow> debug_line \<times> store" where
  "run_task rt this (Persist key result) st =
     (case set_fc this st key (serialize rt result) None of
        (Inl err, st') \<Rightarrow> (SetError err, st')
      | (Inr _, st') \<Rightarrow> (SetOk, st'))"
| "run_task rt this (Cleanup key) st =
     (case remove this st key of
        (Inl err, st') \<Rightarrow> (SetError err, st')
      | (Inr _, st') \<Rightarrow> (SetOk, st'))"

text \<open>Time passing in the store.\<close>

definition elapse :: "nat \<Rightarrow> store \<Rightarrow> store" where
  "elapse ms st = st\<lparr>now := now st + ms\<rparr>"

section \<open>The lock\<close>

text \<open>
  Modelled from the spec: the lease primitive (the \<^verbatim>\<open>redlock\<close> package is not part of
  the repository). \<open>acquire\<close> is atomic: it fails with \<open>LockContention\<close> when the name
  holds a live lease, and otherwise records a lease with a fresh token. \<open>release\<close> is
  check-and-delete: it deletes the lease under the name only when the live lease there
  carries the token of the lease handed in, and signals \<open>LockOwnershipError\<close> otherwise.
\<close>

definition lease_live :: "store \<Rightarrow> string \<Rightarrow> (nat \<times> nat) option" where
  "lease_live st name =
     (case leases st name of
        None \<Rightarrow> None
      | Some (tok, d) \<Rightarrow> if now st < d then Some (tok, d) else None)"

definition acquire :: "store \<Rightarrow> string \<Rightarrow> nat \<Rightarrow> (error + lease) \<times> store" where
  "acquire st name duration =
     (if \<not> online st then (Inl ConnectionError, st)
      else case lease_live st name of
        Some held \<Rightarrow> (Inl LockContention, st)
      | None \<Rightarrow>
          (Inr \<lparr> resource = name, token = next_token st, expiration = now st + duration \<rparr>,
           st\<lparr> leases := (leases st)(name := Some (next_token st, now st + duration)),
               next_token := Suc (next_token st) \<rparr>))"

definition release :: "store \<Rightarrow> lease \<Rightarrow> (error + unit) \<times> store" where
  "release st l =
     (if \<not> online st then (Inl ConnectionError, st)
      else case lease_live st (resource l) of
        None \<Rightarrow> (Inl LockOwnershipError, st)
      | Some (tok, d) \<Rightarrow>
          if tok = token l
          then (Inr (), st\<lparr> leases := (leases st)(resource l := None) \<rparr>)
          else (Inl LockOwnershipError, st))"

text \<open>
  \<^verbatim>\<open>turnOnLock\<close>, \<^verbatim>\<open>lock\<close> and \<^verbatim>\<open>unlock\<close> of \<^verbatim>\<open>fast-cache.ts\<close>. The lock
  library is built over the facade's own client. Before \<^verbatim>\<open>turnOnLock\<close> the field
  \<^verbatim>\<open>redlock\<close> is undefined and \<^verbatim>\<open>lock\<close> fails with a TypeError; before any
  successful \<^verbatim>\<open>lock\<close> the field \<^verbatim>\<open>locker\<close> is undefined and \<^verbatim>\<open>unlock\<close> fails
  the same way.
\<close>

definition turnOnLock :: "FastCache \<Rightarrow> FastCache" where
  "turnOnLock this = this\<lparr> redlock := True, redlockttl := 1000 \<rparr>"

definition lock ::
  "FastCache \<Rightarrow> store \<Rightarrow> string \<Rightarrow> (error + lease) \<times> FastCache \<times> store" where
  "lock this st key =
     (if \<not> redlock this then (Inl TypeError, this, st)
      else case acquire st key (redlockttl this) of
        (Inl err, st') \<Rightarrow> (Inl err, this, st')
      | (Inr l, st') \<Rightarrow> (Inr l, this\<lparr> locker := Some l \<rparr>, st'))"

definition unlock :: "FastCache \<Rightarrow> store \<Rightarrow> (error + bool) \<times> store" where
  "unlock this st =
     (case locker this of
        None \<Rightarrow> (Inl TypeError, st)
      | Some l \<Rightarrow>
          (case release st l of
             (Inl err, st') \<Rightarrow> (Inl err, st')
           | (Inr ack, st') \<Rightarrow> (Inr True, st')))"

section \<open>The collection accessors\<close>










section \<open>Concrete inputs\<close>

text \<open>
  A small instance of the runtime, for evaluating the definitions at concrete inputs. It
  agrees with \<^verbatim>\<open>JSON.stringify\<close> on undefined, null, the booleans and BigInt values,
  and with \<^verbatim>\<open>JSON.parse\<close> on the texts \<^verbatim>\<open>null\<close>, \<^verbatim>\<open>true\<close>, \<^verbatim>\<open>false\<close>, the
  empty text and \<^verbatim>\<open>{oops\<close>; only these are used below. Its digest and encoding are
  stand-ins that keep the bytes visible.
\<close>

definition sample_stringify :: "jsvalue \<Rightarrow> stringify_result" where
  "sample_stringify v =
     (case v of
        JUndefined \<Rightarrow> ReturnsUndefined
      | JNull \<Rightarrow> Text ''null''
      | JBool b \<Rightarrow> Text (if b then ''true'' else ''false'')
      | _ \<Rightarrow> Throws)"

definition sample_parse :: "string \<Rightarrow> jsvalue option" where
  "sample_parse s =
     (if s = ''null'' then Some JNull
      else if s = ''true'' then Some (JBool True)
      else if s = ''false'' then Some (JBool False)
      else None)"

definition sample_runtime :: runtime where
  "sample_runtime =
     \<lparr> JSON_stringify = sample_stringify,
       JSON_parse = sample_parse,
       utf8 = (\<lambda>s. s),
       hash_fn = (\<lambda>name data. name @ ''('' @ data @ '')''),
       encode = (\<lambda>name data. name @ ''('' @ data @ '')'') \<rparr>"

definition empty_store :: store where
  "empty_store =
     \<lparr> online = True, now = 0, non_text = (\<lambda>v. None),
       entries = (\<lambda>k. None), leases = (\<lambda>k. None), next_token = 0 \<rparr>"

text \<open>The client version that prints a null or undefined argument instead of refusing it.\<close>

definition print_non_text :: "jsvalue \<Rightarrow> string option" where
  "print_non_text v =
     (case v of JNull \<Rightarrow> Some ''null'' | JUndefined \<Rightarrow> Some ''undefined'' | _ \<Rightarrow> None)"

definition default_opts :: FastCacheOpts where
  "default_opts = \<lparr> opt_prefix = None, opt_ttl = None \<rparr>"

text \<open>Stores with one entry at the key \<^verbatim>\<open>k\<close>: a valid text, an empty text, a corrupt text.\<close>

definition hit_store :: store where
  "hit_store = empty_store\<lparr> entries := (entries empty_store)(''k'' := Some (''true'', None)) \<rparr>"

definition blank_store :: store where
  "blank_store = empty_store\<lparr> entries := (entries empty_store)(''k'' := Some ([], None)) \<rparr>"

definition blank_printing_store :: store where
  "blank_printing_store = blank_store\<lparr> non_text := print_non_text \<rparr>"

definition printing_store :: store where
  "printing_store = empty_store\<lparr> non_text := print_non_text \<rparr>"

definition corrupt_store :: store where
  "corrupt_store = empty_store\<lparr> entries := (entries empty_store)(''k'' := Some (''{oops'', None)) \<rparr>"

definition offline_store :: store where
  "offline_store = hit_store\<lparr> online := False \<rparr>"

text \<open>
  Two callers sharing one facade, for the lock: the first locks the name \<^verbatim>\<open>L\<close>, its
  lease of 1000 ms runs out, and 1500 ms after the first call the second caller locks
  the same name.
\<close>

definition lock_fc :: FastCache where
  "lock_fc = turnOnLock (init default_opts)"

definition after_A :: "(error + lease) \<times> FastCache \<times> store" where
  "after_A = lock lock_fc empty_store ''L''"

definition after_B :: "(error + lease) \<times> FastCache \<times> store" where
  "after_B = lock (fst (snd after_A)) (elapse 1500 (snd (snd after_A))) ''L''"


section \<open>Facts about the store and the scheduled callbacks\<close>

lemma live_hit_reply: "online st \<Longrightarrow> get this st key = Inr (live st key)"
  by (simp add: get_def getAsync_def)

lemma miss_reply:
  "online st \<Longrightarrow> \<not> truthy (live st key) \<Longrightarrow>
   withCache rt this st key executor = on_settle key executor"
  by (simp add: withCache_def live_hit_reply)

lemma persist_writes:
  assumes "online st" and "0 < ttl this" and "JSON_stringify rt v = Text s"
  shows "run_task rt this (Persist key v) st =
           (SetOk, st\<lparr>entries := (entries st)(key := Some (s, Some (now st + nat (ttl this) * 1000)))\<rparr>)"
  using assms
  by (simp add: set_fc_def setAsync_def serialize_def arg_text_def deadline_def or_number_def)

lemma persist_read:
  assumes "online st" and "0 < ttl this" and "JSON_stringify rt v = Text s"
    and "ms < nat (ttl this) * 1000"
  shows "get this (elapse ms (snd (run_task rt this (Persist key v) st))) key = Inr (Some s)"
  using assms
  by (simp add: persist_writes get_def getAsync_def elapse_def live_def del: run_task.simps)

lemma cleanup_removes:
  "online st \<Longrightarrow>
   run_task rt this (Cleanup key) st =
     (SetOk, st\<lparr>entries := (entries st)(key := None)\<rparr>)"
  by (simp add: remove_def delAsync_def)

lemma cleanup_offline:
  "\<not> online st \<Longrightarrow> run_task rt this (Cleanup key) st = (SetError ConnectionError, st)"
  by (simp add: remove_def delAsync_def)


lemma setAsync_now: "now (snd (setAsync st key v e)) = now st"
  by (simp add: setAsync_def split: option.splits sum.splits)

lemma setAsync_entry:
  "entries (snd (setAsync st key v (Seconds t))) k = entries st k
   \<or> (\<exists>s. entries (snd (setAsync st key v (Seconds t))) k = Some (s, Some (now st + nat t * 1000)))"
  by (simp add: setAsync_def deadline_def split: option.splits sum.splits)

lemma run_queue_now: "now (run_queue q st) = now st"
  by (induction q st rule: run_queue.induct) (simp_all add: setAsync_now)

lemma run_queue_entry:
  "\<forall>c \<in> set q. snd (snd c) = Seconds t \<Longrightarrow>
   entries (run_queue q st) k = entries st k
   \<or> (\<exists>s. entries (run_queue q st) k = Some (s, Some (now st + nat t * 1000)))"
proof (induction q st rule: run_queue.induct)
  case (1 st)
  then show ?case by simp
next
  case (2 key v e q st)
  then have e: "e = Seconds t" by simp
  from 2 have ih: "entries (run_queue q (snd (setAsync st key v e))) k
       = entries (snd (setAsync st key v e)) k
     \<or> (\<exists>s. entries (run_queue q (snd (setAsync st key v e))) k
          = Some (s, Some (now (snd (setAsync st key v e)) + nat t * 1000)))"
    by simp
  from setAsync_entry [of st key v t k] ih show ?case
    by (auto simp: e setAsync_now)
qed

lemma after_A_eq:
  "after_A =
     (Inr \<lparr> resource = ''L'', token = 0, expiration = 1000 \<rparr>,
      lock_fc\<lparr> locker := Some \<lparr> resource = ''L'', token = 0, expiration = 1000 \<rparr> \<rparr>,
      empty_store\<lparr> leases := (leases empty_store)(''L'' := Some (0, 1000)), next_token := 1 \<rparr>)"
  by (simp add: after_A_def lock_def lock_fc_def turnOnLock_def acquire_def lease_live_def
      empty_store_def)

lemma after_B_eq:
  "after_B =
     (Inr \<lparr> resource = ''L'', token = 1, expiration = 2500 \<rparr>,
      lock_fc\<lparr> locker := Some \<lparr> resource = ''L'', token = 1, expiration = 2500 \<rparr> \<rparr>,
      empty_store\<lparr> now := 1500, leases := (leases empty_store)(''L'' := Some (1, 2500)),
        next_token := 2 \<rparr>)"
  by (simp add: after_B_def after_A_eq lock_def lock_fc_def turnOnLock_def acquire_def
      lease_live_def empty_store_def elapse_def)

lemma release_cases:
  "release st l =
     (if \<not> online st then (Inl ConnectionError, st)
      else if (\<exists>d. lease_live st (resource l) = Some (token l, d))
      then (Inr (), st\<lparr> leases := (leases st)(resource l := None) \<rparr>)
      else (Inl LockOwnershipError, st))"
  by (auto simp: release_def split: option.splits)

section \<open>Cache miss\<close>

text \<open>
  C1, as amended. When the read succeeds and finds no entry at the key, and the
  executor resolves to a value, withCache subscribes to the executor once and resolves
  to that value, having only scheduled the persistence for a later turn. If
  \<^verbatim>\<open>JSON.stringify\<close> gives a text for the value, the connection is up in that later turn
  and the facade's TTL is positive, the callback writes that text under the key with a
  deadline of the facade's TTL from then, and a read before the TTL has elapsed
  returns the text.
\<close>

theorem withCache_miss_persists:
  assumes "online st" and "live st key = None"
  shows "withCache rt this st key (Resolved v) =
           \<lparr> outcome = Resolved v, awaited = 1, scheduled = [Persist key v] \<rparr>
       \<and> (JSON_stringify rt v = Text s \<and> online st' \<and> 0 < ttl this
              \<and> ms < nat (ttl this) * 1000 \<longrightarrow>
            run_task rt this (Persist key v) st' =
              (SetOk, st'\<lparr>entries := (entries st')
                 (key := Some (s, Some (now st' + nat (ttl this) * 1000)))\<rparr>)
          \<and> get this (elapse ms (snd (run_task rt this (Persist key v) st'))) key = Inr (Some s))"
proof (intro conjI impI)
  from assms have "\<not> truthy (live st key)" by simp
  with assms(1) show "withCache rt this st key (Resolved v) =
      \<lparr> outcome = Resolved v, awaited = 1, scheduled = [Persist key v] \<rparr>"
    by (simp add: miss_reply on_settle_def)
next
  assume h: "JSON_stringify rt v = Text s \<and> online st' \<and> 0 < ttl this
              \<and> ms < nat (ttl this) * 1000"
  then show "run_task rt this (Persist key v) st' =
      (SetOk, st'\<lparr>entries := (entries st')
         (key := Some (s, Some (now st' + nat (ttl this) * 1000)))\<rparr>)"
    by (intro persist_writes) simp_all
  from h show "get this (elapse ms (snd (run_task rt this (Persist key v) st'))) key = Inr (Some s)"
    by (intro persist_read) simp_all
qed

theorem withCache_miss_persists_witness:
  "withCache sample_runtime (init default_opts) empty_store ''k'' (Resolved (JBool False)) =
     \<lparr> outcome = Resolved (JBool False), awaited = 1, scheduled = [Persist ''k'' (JBool False)] \<rparr>
   \<and> run_task sample_runtime (init default_opts) (Persist ''k'' (JBool False)) empty_store =
       (SetOk, empty_store\<lparr>entries := (entries empty_store)(''k'' := Some (''false'', Some 300000))\<rparr>)
   \<and> get (init default_opts)
        (elapse 1000 (snd (run_task sample_runtime (init default_opts) (Persist ''k'' (JBool False)) empty_store)))
        ''k'' = Inr (Some ''false'')"
  using withCache_miss_persists [of empty_store "''k''" sample_runtime "init default_opts"
      "JBool False" "''false''" empty_store 1000]
  by (simp add: empty_store_def live_def sample_runtime_def sample_stringify_def
      init_def default_opts_def or_number_def get_def getAsync_def elapse_def
      del: run_task.simps)

text \<open>
  The claim as stated, for every value the executor resolves to, fails on a value
  that \<^verbatim>\<open>JSON.stringify\<close> refuses: serialize returns null, the callback hands null to
  the client, and nothing that serializes the value is stored. With a client that
  refuses a null argument the key stays absent; with a client that prints it, the key
  holds the text \<^verbatim>\<open>null\<close> and the next withCache on the key resolves to null.
\<close>

theorem withCache_miss_persists_counterexample:
  "live empty_store ''k'' = None
   \<and> withCache sample_runtime (init default_opts) empty_store ''k'' (Resolved (JBigInt 1)) =
       \<lparr> outcome = Resolved (JBigInt 1), awaited = 1, scheduled = [Persist ''k'' (JBigInt 1)] \<rparr>
   \<and> serialize sample_runtime (JBigInt 1) = JNull
   \<and> run_task sample_runtime (init default_opts) (Persist ''k'' (JBigInt 1)) empty_store =
       (SetError TypeError, empty_store)
   \<and> get (init default_opts)
        (snd (run_task sample_runtime (init default_opts) (Persist ''k'' (JBigInt 1)) empty_store))
        ''k'' = Inr None
   \<and> get (init default_opts)
        (snd (run_task sample_runtime (init default_opts) (Persist ''k'' (JBigInt 1)) printing_store))
        ''k'' = Inr (Some ''null'')
   \<and> withCache sample_runtime (init default_opts)
        (snd (run_task sample_runtime (init default_opts) (Persist ''k'' (JBigInt 1)) printing_store))
        ''k'' (Resolved (JBigInt 1)) =
       \<lparr> outcome = Resolved JNull, awaited = 0, scheduled = [] \<rparr>"
  by (simp add: empty_store_def printing_store_def print_non_text_def live_def withCache_def
      get_def getAsync_def on_settle_def serialize_def deserialize_def sample_runtime_def
      sample_stringify_def sample_parse_def set_fc_def setAsync_def arg_text_def deadline_def
      or_number_def init_def default_opts_def)

section \<open>Cache hit\<close>

text \<open>
  C2. When the store holds a valid entry at the key (a live entry whose text
  \<^verbatim>\<open>JSON.parse\<close> accepts; \<^verbatim>\<open>JSON.parse\<close> throws on the empty text), withCache never
  subscribes to the executor, schedules nothing, and resolves to the parsed value,
  however the executor settles.
\<close>

theorem withCache_hit:
  assumes "online st" and "live st key = Some s"
    and "JSON_parse rt [] = None" and "JSON_parse rt s = Some v"
  shows "withCache rt this st key executor =
           \<lparr> outcome = Resolved v, awaited = 0, scheduled = [] \<rparr>"
proof -
  from assms(3,4) have "s \<noteq> []" by auto
  with assms show ?thesis
    by (simp add: withCache_def live_hit_reply deserialize_def)
qed

theorem withCache_hit_witness:
  "withCache sample_runtime (init default_opts) hit_store ''k'' (Resolved (JBool False)) =
     \<lparr> outcome = Resolved (JBool True), awaited = 0, scheduled = [] \<rparr>"
  using withCache_hit [of hit_store "''k''" "''true''" sample_runtime "JBool True"
      "init default_opts" "Resolved (JBool False)"]
  by (simp add: hit_store_def empty_store_def live_def sample_runtime_def sample_parse_def)

section \<open>A failing executor\<close>

text \<open>
  C3, as amended. When the read succeeds and finds no entry, or an empty text, at the
  key, and the executor rejects with a reason, withCache rejects with the same reason,
  having scheduled one removal of the key for a later turn. The removal reports to the
  debug log only: with the connection up it succeeds and no entry is left at the key,
  with the connection down it logs the error and changes nothing.
\<close>

theorem withCache_failure_propagates:
  assumes "online st" and "\<not> truthy (live st key)"
  shows "withCache rt this st key (Rejected e) =
           \<lparr> outcome = Rejected e, awaited = 1, scheduled = [Cleanup key] \<rparr>
       \<and> (online st' \<longrightarrow>
            fst (run_task rt this (Cleanup key) st') = SetOk
          \<and> entries (snd (run_task rt this (Cleanup key) st')) key = None
          \<and> get this (snd (run_task rt this (Cleanup key) st')) key = Inr None)
       \<and> (\<not> online st' \<longrightarrow>
            run_task rt this (Cleanup key) st' = (SetError ConnectionError, st'))"
proof (intro conjI impI)
  from assms show "withCache rt this st key (Rejected e) =
      \<lparr> outcome = Rejected e, awaited = 1, scheduled = [Cleanup key] \<rparr>"
    by (simp add: miss_reply on_settle_def)
next
  assume on: "online st'"
  then show "fst (run_task rt this (Cleanup key) st') = SetOk"
    by (simp add: cleanup_removes del: run_task.simps)
  from on show "entries (snd (run_task rt this (Cleanup key) st')) key = None"
    by (simp add: cleanup_removes del: run_task.simps)
  from on show "get this (snd (run_task rt this (Cleanup key) st')) key = Inr None"
    by (simp add: cleanup_removes get_def getAsync_def live_def del: run_task.simps)
next
  assume "\<not> online st'"
  then show "run_task rt this (Cleanup key) st' = (SetError ConnectionError, st')"
    by (rule cleanup_offline)
qed

theorem withCache_failure_propagates_witness:
  "withCache sample_runtime (init default_opts) blank_store ''k'' (Rejected (Thrown (JStr ''boom''))) =
     \<lparr> outcome = Rejected (Thrown (JStr ''boom'')), awaited = 1, scheduled = [Cleanup ''k''] \<rparr>
   \<and> fst (run_task sample_runtime (init default_opts) (Cleanup ''k'') hit_store) = SetOk
   \<and> get (init default_opts) (snd (run_task sample_runtime (init default_opts) (Cleanup ''k'') hit_store)) ''k''
       = Inr None
   \<and> run_task sample_runtime (init default_opts) (Cleanup ''k'') offline_store =
       (SetError ConnectionError, offline_store)"
  using withCache_failure_propagates [of blank_store "''k''" sample_runtime "init default_opts"
      "Thrown (JStr ''boom'')" hit_store]
    withCache_failure_propagates [of blank_store "''k''" sample_runtime "init default_opts"
      "Thrown (JStr ''boom'')" offline_store]
  by (simp add: blank_store_def hit_store_def offline_store_def empty_store_def live_def
      del: run_task.simps)

text \<open>
  The claim as stated, for every key, fails on a key that holds a valid entry: the
  executor's rejection is not passed on, the cached value is returned, no removal is
  scheduled and the entry stays.
\<close>

theorem withCache_failure_propagates_counterexample:
  "live hit_store ''k'' = Some ''true''
   \<and> withCache sample_runtime (init default_opts) hit_store ''k'' (Rejected (Thrown (JStr ''boom''))) =
       \<lparr> outcome = Resolved (JBool True), awaited = 0, scheduled = [] \<rparr>"
  by (simp add: hit_store_def empty_store_def live_def withCache_def get_def getAsync_def
      deserialize_def sample_runtime_def sample_parse_def)

section \<open>A corrupt cached text\<close>

text \<open>
  C4. The claim asks that an entry \<^verbatim>\<open>JSON.parse\<close> cannot read be treated as a miss
  and removed. On the entry \<^verbatim>\<open>{oops\<close> withCache resolves to null, does not subscribe
  to the executor and schedules no removal.
\<close>

theorem withCache_corrupt_entry_returns_null:
  "live corrupt_store ''k'' = Some ''{oops''
   \<and> JSON_parse sample_runtime ''{oops'' = None
   \<and> withCache sample_runtime (init default_opts) corrupt_store ''k'' (Resolved (JBool True)) =
       \<lparr> outcome = Resolved JNull, awaited = 0, scheduled = [] \<rparr>"
  by (simp add: corrupt_store_def empty_store_def live_def withCache_def get_def getAsync_def
      deserialize_def sample_runtime_def sample_parse_def)

section \<open>The cache key\<close>

text \<open>
  C5. For a value with JSON text \<open>s\<close>, cacheKey returns the base64 print of the SHA-1
  digest of the UTF-8 bytes of \<open>s\<close>. The result depends on the value only through
  that text, so equal inputs give equal keys; cacheKey neither reads nor changes the
  store or the facade's fields.
\<close>

theorem cacheKey_digest:
  "(JSON_stringify rt v = Text s \<longrightarrow>
      cacheKey rt v = Inr (encode rt ''base64'' (hash_fn rt ''sha1'' (utf8 rt s))))
   \<and> (JSON_stringify rt v = JSON_stringify rt w \<longrightarrow> cacheKey rt v = cacheKey rt w)"
  by (simp add: cacheKey_def serialize_def update_def createHash_def digest_def)

theorem cacheKey_digest_witness:
  "cacheKey sample_runtime (JBool True) = Inr ''base64(sha1(true))''"
  using cacheKey_digest [of sample_runtime "JBool True" "''true''" "JBool True"]
  by (simp add: sample_runtime_def sample_stringify_def)

text \<open>
  C6, as amended. For a value on which \<^verbatim>\<open>JSON.stringify\<close> throws, cacheKey fails
  with the TypeError that \<^verbatim>\<open>hash.update\<close> raises on the null it is handed; the caller
  never receives a key.
\<close>

theorem cacheKey_unserializable:
  "JSON_stringify rt v = Throws \<Longrightarrow>
     cacheKey rt v = Inl TypeError \<and> cacheKey rt v \<noteq> Inr fp"
  by (simp add: cacheKey_def serialize_def update_def)

theorem cacheKey_unserializable_witness:
  "cacheKey sample_runtime (JBigInt 1) = Inl TypeError
   \<and> cacheKey sample_runtime (JBigInt 1) \<noteq> Inr ''base64(sha1(null))''"
  using cacheKey_unserializable [of sample_runtime "JBigInt 1" "''base64(sha1(null))''"]
  by (simp add: sample_runtime_def sample_stringify_def)

text \<open>
  The claim as stated names the error a SerializationError. The exception of
  \<^verbatim>\<open>JSON.stringify\<close> is swallowed by serialize, and the error the caller sees is the
  digest's TypeError.
\<close>

theorem cacheKey_unserializable_counterexample:
  "JSON_stringify sample_runtime (JBigInt 1) = Throws
   \<and> cacheKey sample_runtime (JBigInt 1) = Inl TypeError
   \<and> cacheKey sample_runtime (JBigInt 1) \<noteq> Inl SerializationError"
  by (simp add: cacheKey_def serialize_def update_def sample_runtime_def sample_stringify_def)

section \<open>Releasing the lock\<close>

text \<open>
  C7, as amended. \<^verbatim>\<open>unlock\<close> takes no lease: it releases the lease the facade
  recorded at its last successful \<^verbatim>\<open>lock\<close>, by check-and-delete on that lease's
  token. It returns true only if the store holds a live lease under that name with
  that token, and then deletes exactly that lease; if the connection is up and the
  store holds no such lease, it fails with LockOwnershipError and deletes nothing;
  before any \<^verbatim>\<open>lock\<close> it fails with a TypeError. A lease whose token differs from the
  recorded one is never deleted.
\<close>

theorem unlock_check_and_delete:
  "(unlock this st = (Inr b, st') \<longrightarrow>
      (\<exists>l d. locker this = Some l \<and> lease_live st (resource l) = Some (token l, d)
         \<and> st' = st\<lparr> leases := (leases st)(resource l := None) \<rparr>))
   \<and> (locker this = Some l \<and> online st \<and> lease_live st (resource l) = Some (token l, d)
        \<longrightarrow> unlock this st = (Inr True, st\<lparr> leases := (leases st)(resource l := None) \<rparr>))
   \<and> (locker this = Some l \<and> online st \<and> (\<forall>d'. lease_live st (resource l) \<noteq> Some (token l, d'))
        \<longrightarrow> unlock this st = (Inl LockOwnershipError, st))
   \<and> (locker this = None \<longrightarrow> unlock this st = (Inl TypeError, st))
   \<and> (leases st name = Some (tok, dl) \<and> (\<forall>l'. locker this = Some l' \<longrightarrow> token l' \<noteq> tok)
        \<longrightarrow> leases (snd (unlock this st)) name = Some (tok, dl))"
proof (intro conjI impI)
  assume "unlock this st = (Inr b, st')"
  then show "\<exists>l d. locker this = Some l \<and> lease_live st (resource l) = Some (token l, d)
         \<and> st' = st\<lparr> leases := (leases st)(resource l := None) \<rparr>"
    by (auto simp: unlock_def release_cases split: option.splits if_splits)
next
  assume "locker this = Some l \<and> online st \<and> lease_live st (resource l) = Some (token l, d)"
  then show "unlock this st = (Inr True, st\<lparr> leases := (leases st)(resource l := None) \<rparr>)"
    by (auto simp: unlock_def release_cases)
next
  assume "locker this = Some l \<and> online st \<and> (\<forall>d'. lease_live st (resource l) \<noteq> Some (token l, d'))"
  then show "unlock this st = (Inl LockOwnershipError, st)"
    by (auto simp: unlock_def release_cases)
next
  assume "locker this = None"
  then show "unlock this st = (Inl TypeError, st)"
    by (simp add: unlock_def)
next
  assume h: "leases st name = Some (tok, dl) \<and> (\<forall>l'. locker this = Some l' \<longrightarrow> token l' \<noteq> tok)"
  show "leases (snd (unlock this st)) name = Some (tok, dl)"
  proof (cases "locker this")
    case None
    with h show ?thesis by (simp add: unlock_def)
  next
    case (Some l')
    with h have ne: "token l' \<noteq> tok" by simp
    show ?thesis
    proof (cases "name = resource l'")
      case True
      with h ne have "\<And>d'. lease_live st (resource l') \<noteq> Some (token l', d')"
        by (auto simp: lease_live_def split: if_splits)
      with Some h show ?thesis by (auto simp: unlock_def release_cases)
    next
      case False
      with Some h show ?thesis by (auto simp: unlock_def release_cases)
    qed
  qed
qed

theorem unlock_check_and_delete_witness:
  "unlock (fst (snd after_B)) (snd (snd after_B)) =
     (Inr True, (snd (snd after_B))\<lparr> leases := (leases (snd (snd after_B)))(''L'' := None) \<rparr>)
   \<and> unlock (fst (snd after_A)) (snd (snd after_B)) = (Inl LockOwnershipError, snd (snd after_B))
   \<and> leases (snd (unlock (fst (snd after_A)) (snd (snd after_B)))) ''L'' = Some (1, 2500)
   \<and> unlock lock_fc (snd (snd after_B)) = (Inl TypeError, snd (snd after_B))"
proof -
  let ?lA = "\<lparr> resource = ''L'', token = 0, expiration = 1000 \<rparr>"
  let ?lB = "\<lparr> resource = ''L'', token = 1, expiration = 2500 \<rparr>"
  let ?st = "snd (snd after_B)"
  have st: "online ?st" "lease_live ?st ''L'' = Some (1, 2500)" "leases ?st ''L'' = Some (1, 2500)"
    by (simp_all add: after_B_eq lease_live_def empty_store_def)
  have lk: "locker (fst (snd after_B)) = Some ?lB" "locker (fst (snd after_A)) = Some ?lA"
    "locker lock_fc = None"
    by (simp_all add: after_A_eq after_B_eq lock_fc_def turnOnLock_def init_def)
  have 1: "unlock (fst (snd after_B)) ?st = (Inr True, ?st\<lparr> leases := (leases ?st)(''L'' := None) \<rparr>)"
    using unlock_check_and_delete [of "fst (snd after_B)" ?st True
        "?st\<lparr> leases := (leases ?st)(''L'' := None) \<rparr>" ?lB 2500 "''L''" 1 2500] st lk
    by simp
  have 2: "unlock (fst (snd after_A)) ?st = (Inl LockOwnershipError, ?st)"
    using unlock_check_and_delete [of "fst (snd after_A)" ?st True ?st ?lA 1000 "''L''" 1 2500] st lk
    by simp
  have 3: "leases (snd (unlock (fst (snd after_A)) ?st)) ''L'' = Some (1, 2500)"
    using unlock_check_and_delete [of "fst (snd after_A)" ?st True ?st ?lA 1000 "''L''" 1 2500] st lk
    by simp
  have 4: "unlock lock_fc ?st = (Inl TypeError, ?st)"
    using unlock_check_and_delete [of lock_fc ?st True ?st ?lA 1000 "''L''" 1 2500] lk
    by simp
  from 1 2 3 4 show ?thesis by simp
qed

text \<open>
  The claim as stated ties the release to the caller's own token. The first caller's
  lease (token 0) has expired and the second caller has acquired the name through the
  same facade (token 1); \<^verbatim>\<open>unlock\<close>, called by the first caller, returns true and
  deletes the second caller's live lease, and no error is signalled.
\<close>

theorem unlock_check_and_delete_counterexample:
  "fst after_A = Inr \<lparr> resource = ''L'', token = 0, expiration = 1000 \<rparr>
   \<and> fst after_B = Inr \<lparr> resource = ''L'', token = 1, expiration = 2500 \<rparr>
   \<and> lease_live (elapse 100 (snd (snd after_B))) ''L'' = Some (1, 2500)
   \<and> fst (unlock (fst (snd after_B)) (elapse 100 (snd (snd after_B)))) = Inr True
   \<and> leases (snd (unlock (fst (snd after_B)) (elapse 100 (snd (snd after_B))))) ''L'' = None"
  by (simp add: after_A_eq after_B_eq unlock_def release_def lease_live_def elapse_def
      empty_store_def)

section \<open>The prefix\<close>




section \<open>Expiry on writes\<close>

text \<open>
  C9, as amended. The facade's default TTL is the configured one when it is given and
  not zero, and 300 seconds otherwise. \<^verbatim>\<open>set\<close> sends its write with the explicit
  expiry when that is given and not zero, and with the default TTL otherwise;
  \<^verbatim>\<open>setAll\<close> sends every write with the default TTL. A write that the store accepts
  has a positive expiry and leaves an entry with that deadline; neither path ever
  creates an entry without a deadline.
\<close>

theorem expiry_on_writes:
  "ttl (init opts) = (case opt_ttl opts of None \<Rightarrow> 300 | Some t \<Rightarrow> if t = 0 then 300 else t)
   \<and> set_fc this st key v ex =
       setAsync st key v
         (Seconds (case ex of None \<Rightarrow> ttl this | Some n \<Rightarrow> if n = 0 then ttl this else n))
   \<and> (fst (set_fc this st key v ex) = Inr () \<longrightarrow>
        0 < or_number ex (ttl this)
      \<and> (\<exists>s. entries (snd (set_fc this st key v ex)) key =
                Some (s, Some (now st + nat (or_number ex (ttl this)) * 1000))))
   \<and> (entries (snd (set_fc this st key v ex)) k = Some (s, None) \<longrightarrow> entries st k = Some (s, None))
   \<and> (entries (snd (setAll this st obj)) k \<noteq> entries st k \<longrightarrow>
        (\<exists>s'. entries (snd (setAll this st obj)) k = Some (s', Some (now st + nat (ttl this) * 1000))))
   \<and> (entries (snd (setAll this st obj)) k = Some (s, None) \<longrightarrow> entries st k = Some (s, None))"
proof -
  have q: "\<forall>c \<in> set (map (\<lambda>(key, v). (key, v, Seconds (ttl this))) obj). snd (snd c) = Seconds (ttl this)"
    by auto
  have all: "entries (snd (setAll this st obj)) k = entries st k
     \<or> (\<exists>s'. entries (snd (setAll this st obj)) k = Some (s', Some (now st + nat (ttl this) * 1000)))"
    using run_queue_entry [OF q, of st k] by (simp add: setAll_def multi_exec_def)
  have one: "entries (snd (set_fc this st key v ex)) k = entries st k
     \<or> (\<exists>s'. entries (snd (set_fc this st key v ex)) k
            = Some (s', Some (now st + nat (or_number ex (ttl this)) * 1000)))"
    using setAsync_entry [of st key v "or_number ex (ttl this)" k] by (simp add: set_fc_def)
  have ok: "fst (set_fc this st key v ex) = Inr () \<longrightarrow>
        0 < or_number ex (ttl this)
      \<and> (\<exists>s. entries (snd (set_fc this st key v ex)) key =
                Some (s, Some (now st + nat (or_number ex (ttl this)) * 1000)))"
    by (auto simp: set_fc_def setAsync_def deadline_def split: option.splits sum.splits if_splits)
  have cfg: "ttl (init opts) = (case opt_ttl opts of None \<Rightarrow> 300 | Some t \<Rightarrow> if t = 0 then 300 else t)"
    by (simp add: init_def or_number_def)
  have cmd: "set_fc this st key v ex =
       setAsync st key v
         (Seconds (case ex of None \<Rightarrow> ttl this | Some n \<Rightarrow> if n = 0 then ttl this else n))"
    by (simp add: set_fc_def or_number_def)
  from all one ok cfg cmd show ?thesis by auto
qed

theorem expiry_on_writes_witness:
  "fst (set_fc (init default_opts) empty_store ''k'' (JStr ''v'') (Some 7)) = Inr ()
   \<and> (\<exists>s. entries (snd (set_fc (init default_opts) empty_store ''k'' (JStr ''v'') (Some 7))) ''k''
          = Some (s, Some 7000))
   \<and> entries (snd (setAll (init default_opts) empty_store [(''a'', JStr ''x''), (''b'', JStr ''y'')])) ''a''
       \<noteq> entries empty_store ''a''
   \<and> (\<exists>s. entries (snd (setAll (init default_opts) empty_store [(''a'', JStr ''x''), (''b'', JStr ''y'')])) ''a''
          = Some (s, Some 300000))"
proof -
  let ?fc = "init default_opts"
  let ?obj = "[(''a'', JStr ''x''), (''b'', JStr ''y'')]"
  note T = expiry_on_writes [where opts = default_opts and this = ?fc and st = empty_store
      and key = "''k''" and v = "JStr ''v''" and ex = "Some 7" and k = "''a''" and obj = ?obj]
  have a: "fst (set_fc ?fc empty_store ''k'' (JStr ''v'') (Some 7)) = Inr ()"
    by (simp add: set_fc_def setAsync_def arg_text_def deadline_def or_number_def empty_store_def)
  have b: "entries (snd (setAll ?fc empty_store ?obj)) ''a'' \<noteq> entries empty_store ''a''"
    by (simp add: setAll_def multi_exec_def setAsync_def arg_text_def deadline_def init_def
        default_opts_def or_number_def empty_store_def)
  have t: "nat (or_number (Some 7) (ttl ?fc)) * 1000 = 7000" "now empty_store = 0"
    "nat (ttl ?fc) * 1000 = 300000"
    by (simp_all add: init_def default_opts_def or_number_def empty_store_def)
  from T a have "\<exists>s. entries (snd (set_fc ?fc empty_store ''k'' (JStr ''v'') (Some 7))) ''k''
      = Some (s, Some (now empty_store + nat (or_number (Some 7) (ttl ?fc)) * 1000))"
    by blast
  then have c: "\<exists>s. entries (snd (set_fc ?fc empty_store ''k'' (JStr ''v'') (Some 7))) ''k''
      = Some (s, Some 7000)"
    by (simp only: t add_0)
  from T b have "\<exists>s. entries (snd (setAll ?fc empty_store ?obj)) ''a''
      = Some (s, Some (now empty_store + nat (ttl ?fc) * 1000))"
    by blast
  then have d: "\<exists>s. entries (snd (setAll ?fc empty_store ?obj)) ''a'' = Some (s, Some 300000)"
    by (simp only: t add_0)
  from a b c d show ?thesis by blast
qed

text \<open>
  The claim as stated fails on an explicit expiry of 0: the write is sent with the
  default 300 seconds, not with the expiry given.
\<close>

theorem expiry_on_writes_counterexample:
  "ttl (init default_opts) = 300
   \<and> set_fc (init default_opts) empty_store ''k'' (JStr ''v'') (Some 0) =
       (Inr (), empty_store\<lparr>entries := (entries empty_store)(''k'' := Some (''v'', Some 300000))\<rparr>)
   \<and> set_fc (init default_opts) empty_store ''k'' (JStr ''v'') (Some 0) \<noteq>
       setAsync empty_store ''k'' (JStr ''v'') (Seconds 0)"
  by (simp add: init_def default_opts_def or_number_def set_fc_def setAsync_def arg_text_def
      deadline_def empty_store_def)

section \<open>An empty cached text\<close>

text \<open>
  C10, as amended. When the entry at the key is the empty text, withCache takes the
  miss path: it subscribes to the executor, resolves to the executor's value and
  schedules its persistence; the empty text is not parsed. If \<^verbatim>\<open>JSON.stringify\<close>
  gives a text for the value, the connection is up in the later turn and the facade's
  TTL is positive, the scheduled callback stores that text, and a read before the TTL
  has elapsed returns it.
\<close>

theorem withCache_empty_text_is_miss:
  assumes "online st" and "live st key = Some []"
  shows "withCache rt this st key (Resolved v) =
           \<lparr> outcome = Resolved v, awaited = 1, scheduled = [Persist key v] \<rparr>
       \<and> (JSON_stringify rt v = Text s \<and> online st' \<and> 0 < ttl this
              \<and> ms < nat (ttl this) * 1000 \<longrightarrow>
            fst (run_task rt this (Persist key v) st') = SetOk
          \<and> get this (elapse ms (snd (run_task rt this (Persist key v) st'))) key = Inr (Some s))"
proof (intro conjI impI)
  from assms have "\<not> truthy (live st key)" by simp
  with assms(1) show "withCache rt this st key (Resolved v) =
      \<lparr> outcome = Resolved v, awaited = 1, scheduled = [Persist key v] \<rparr>"
    by (simp add: miss_reply on_settle_def)
next
  assume h: "JSON_stringify rt v = Text s \<and> online st' \<and> 0 < ttl this
              \<and> ms < nat (ttl this) * 1000"
  then show "fst (run_task rt this (Persist key v) st') = SetOk"
    by (simp add: persist_writes del: run_task.simps)
  from h show "get this (elapse ms (snd (run_task rt this (Persist key v) st'))) key = Inr (Some s)"
    by (intro persist_read) simp_all
qed

theorem withCache_empty_text_is_miss_witness:
  "withCache sample_runtime (init default_opts) blank_store ''k'' (Resolved (JBool True)) =
     \<lparr> outcome = Resolved (JBool True), awaited = 1, scheduled = [Persist ''k'' (JBool True)] \<rparr>
   \<and> fst (run_task sample_runtime (init default_opts) (Persist ''k'' (JBool True)) blank_store) = SetOk
   \<and> get (init default_opts)
        (elapse 299999 (snd (run_task sample_runtime (init default_opts) (Persist ''k'' (JBool True)) blank_store)))
        ''k'' = Inr (Some ''true'')"
  using withCache_empty_text_is_miss [of blank_store "''k''" sample_runtime "init default_opts"
      "JBool True" "''true''" blank_store 299999]
  by (simp add: blank_store_def empty_store_def live_def sample_runtime_def sample_stringify_def
      init_def default_opts_def or_number_def del: run_task.simps)

text \<open>
  The claim as stated has the resolved value persisted whatever it is. On a value that
  \<^verbatim>\<open>JSON.stringify\<close> refuses the value is returned, but serialize returns null and
  the callback hands null to the client: with a client that refuses a null argument
  the key keeps its empty text; with a client that prints it, the key holds the text
  \<^verbatim>\<open>null\<close> and the next withCache on the key resolves to null.
\<close>

theorem withCache_empty_text_is_miss_counterexample:
  "live blank_store ''k'' = Some []
   \<and> withCache sample_runtime (init default_opts) blank_store ''k'' (Resolved (JBigInt 1)) =
       \<lparr> outcome = Resolved (JBigInt 1), awaited = 1, scheduled = [Persist ''k'' (JBigInt 1)] \<rparr>
   \<and> run_task sample_runtime (init default_opts) (Persist ''k'' (JBigInt 1)) blank_store =
       (SetError TypeError, blank_store)
   \<and> get (init default_opts)
        (snd (run_task sample_runtime (init default_opts) (Persist ''k'' (JBigInt 1)) blank_store))
        ''k'' = Inr (Some [])
   \<and> get (init default_opts)
        (snd (run_task sample_runtime (init default_opts) (Persist ''k'' (JBigInt 1))
               blank_printing_store))
        ''k'' = Inr (Some ''null'')
   \<and> withCache sample_runtime (init default_opts)
        (snd (run_task sample_runtime (init default_opts) (Persist ''k'' (JBigInt 1))
               blank_printing_store))
        ''k'' (Resolved (JBigInt 1)) =
       \<lparr> outcome = Resolved JNull, awaited = 0, scheduled = [] \<rparr>"
  by (simp add: blank_store_def blank_printing_store_def empty_store_def print_non_text_def
      live_def withCache_def get_def getAsync_def on_settle_def serialize_def deserialize_def
      sample_runtime_def sample_stringify_def sample_parse_def set_fc_def setAsync_def
      arg_text_def deadline_def or_number_def init_def default_opts_def)

end
